theory Spec2Isabelle
  imports Main "HOL-Library.Sublist"
begin

section \<open>Python strings\<close>

text \<open>
  A Python \<^verbatim>\<open>str\<close> is a sequence of Unicode code points, so it is modelled as a list of
  natural numbers, one per code point.  The Korean keywords of the planner are written as
  lists of code points; ASCII text is written with \<open>asc\<close>.
\<close>

type_synonym ustr = "nat list"

definition asc :: "string \<Rightarrow> ustr" where
  "asc = map of_char"

datatype error = ValueError | TypeError | AttributeError

subsection \<open>Character classes of the Unicode database\<close>

text \<open>
  The tables list the inclusive code point ranges that CPython 3.11 (Unicode 14.0) puts in
  the classes used by \<^verbatim>\<open>str.strip\<close>, \<^verbatim>\<open>int\<close> and the \<^verbatim>\<open>re\<close> module on \<^verbatim>\<open>str\<close> patterns:
  white space (\<^verbatim>\<open>\s\<close>, \<^verbatim>\<open>str.isspace\<close>), decimal digits (\<^verbatim>\<open>\d\<close>) and word characters
  (\<^verbatim>\<open>\w\<close>: alphanumerics and the underscore).
\<close>

definition uni_space_ranges :: "(nat \<times> nat) list" where
  "uni_space_ranges =
    [(9, 13), (28, 32), (133, 133), (160, 160), (5760, 5760), (8192, 8202), (8232, 8233), (8239,
     8239), (8287, 8287), (12288, 12288)]"

definition uni_decimal_ranges :: "(nat \<times> nat) list" where
  "uni_decimal_ranges =
    [(48, 57), (1632, 1641), (1776, 1785), (1984, 1993), (2406, 2415), (2534, 2543), (2662,
     2671), (2790, 2799), (2918, 2927), (3046, 3055), (3174, 3183), (3302, 3311), (3430, 3439),
     (3558, 3567), (3664, 3673), (3792, 3801), (3872, 3881), (4160, 4169), (4240, 4249), (6112,
     6121), (6160, 6169), (6470, 6479), (6608, 6617), (6784, 6793), (6800, 6809), (6992, 7001),
     (7088, 7097), (7232, 7241), (7248, 7257), (42528, 42537), (43216, 43225), (43264, 43273),
     (43472, 43481), (43504, 43513), (43600, 43609), (44016, 44025), (65296, 65305), (66720,
     66729), (68912, 68921), (69734, 69743), (69872, 69881), (69942, 69951), (70096, 70105),
     (70384, 70393), (70736, 70745), (70864, 70873), (71248, 71257), (71360, 71369), (71472,
     71481), (71904, 71913), (72016, 72025), (72784, 72793), (73040, 73049), (73120, 73129),
     (92768, 92777), (92864, 92873), (93008, 93017), (120782, 120831), (123200, 123209), (123632,
     123641), (125264, 125273), (130032, 130041)]"

definition uni_word_ranges :: "(nat \<times> nat) list" where
  "uni_word_ranges =
    [(48, 57), (65, 90), (95, 95), (97, 122), (170, 170), (178, 179), (181, 181), (185, 186),
     (188, 190), (192, 214), (216, 246), (248, 705), (710, 721), (736, 740), (748, 748), (750,
     750), (880, 884), (886, 887), (890, 893), (895, 895), (902, 902), (904, 906), (908, 908),
     (910, 929), (931, 1013), (1015, 1153), (1162, 1327), (1329, 1366), (1369, 1369), (1376,
     1416), (1488, 1514), (1519, 1522), (1568, 1610), (1632, 1641), (1646, 1647), (1649, 1747),
     (1749, 1749), (1765, 1766), (1774, 1788), (1791, 1791), (1808, 1808), (1810, 1839), (1869,
     1957), (1969, 1969), (1984, 2026), (2036, 2037), (2042, 2042), (2048, 2069), (2074, 2074),
     (2084, 2084), (2088, 2088), (2112, 2136), (2144, 2154), (2160, 2183), (2185, 2190), (2208,
     2249), (2308, 2361), (2365, 2365), (2384, 2384), (2392, 2401), (2406, 2415), (2417, 2432),
     (2437, 2444), (2447, 2448), (2451, 2472), (2474, 2480), (2482, 2482), (2486, 2489), (2493,
     2493), (2510, 2510), (2524, 2525), (2527, 2529), (2534, 2545), (2548, 2553), (2556, 2556),
     (2565, 2570), (2575, 2576), (2579, 2600), (2602, 2608), (2610, 2611), (2613, 2614), (2616,
     2617), (2649, 2652), (2654, 2654), (2662, 2671), (2674, 2676), (2693, 2701), (2703, 2705),
     (2707, 2728), (2730, 2736), (2738, 2739), (2741, 2745), (2749, 2749), (2768, 2768), (2784,
     2785), (2790, 2799), (2809, 2809), (2821, 2828), (2831, 2832), (2835, 2856), (2858, 2864),
     (2866, 2867), (2869, 2873), (2877, 2877), (2908, 2909), (2911, 2913), (2918, 2927), (2929,
     2935), (2947, 2947), (2949, 2954), (2958, 2960), (2962, 2965), (2969, 2970), (2972, 2972),
     (2974, 2975), (2979, 2980), (2984, 2986), (2990, 3001), (3024, 3024), (3046, 3058), (3077,
     3084), (3086, 3088), (3090, 3112), (3114, 3129), (3133, 3133), (3160, 3162), (3165, 3165),
     (3168, 3169), (3174, 3183), (3192, 3198), (3200, 3200), (3205, 3212), (3214, 3216), (3218,
     3240), (3242, 3251), (3253, 3257), (3261, 3261), (3293, 3294), (3296, 3297), (3302, 3311),
     (3313, 3314), (3332, 3340), (3342, 3344), (3346, 3386), (3389, 3389), (3406, 3406), (3412,
     3414), (3416, 3425), (3430, 3448), (3450, 3455), (3461, 3478), (3482, 3505), (3507, 3515),
     (3517, 3517), (3520, 3526), (3558, 3567), (3585, 3632), (3634, 3635), (3648, 3654), (3664,
     3673), (3713, 3714), (3716, 3716), (3718, 3722), (3724, 3747), (3749, 3749), (3751, 3760),
     (3762, 3763), (3773, 3773), (3776, 3780), (3782, 3782), (3792, 3801), (3804, 3807), (3840,
     3840), (3872, 3891), (3904, 3911), (3913, 3948), (3976, 3980), (4096, 4138), (4159, 4169),
     (4176, 4181), (4186, 4189), (4193, 4193), (4197, 4198), (4206, 4208), (4213, 4225), (4238,
     4238), (4240, 4249), (4256, 4293), (4295, 4295), (4301, 4301), (4304, 4346), (4348, 4680),
     (4682, 4685), (4688, 4694), (4696, 4696), (4698, 4701), (4704, 4744), (4746, 4749), (4752,
     4784), (4786, 4789), (4792, 4798), (4800, 4800), (4802, 4805), (4808, 4822), (4824, 4880),
     (4882, 4885), (4888, 4954), (4969, 4988), (4992, 5007), (5024, 5109), (5112, 5117), (5121,
     5740), (5743, 5759), (5761, 5786), (5792, 5866), (5870, 5880), (5888, 5905), (5919, 5937),
     (5952, 5969), (5984, 5996), (5998, 6000), (6016, 6067), (6103, 6103), (6108, 6108), (6112,
     6121), (6128, 6137), (6160, 6169), (6176, 6264), (6272, 6276), (6279, 6312), (6314, 6314),
     (6320, 6389), (6400, 6430), (6470, 6509), (6512, 6516), (6528, 6571), (6576, 6601), (6608,
     6618), (6656, 6678), (6688, 6740), (6784, 6793), (6800, 6809), (6823, 6823), (6917, 6963),
     (6981, 6988), (6992, 7001), (7043, 7072), (7086, 7141), (7168, 7203), (7232, 7241), (7245,
     7293), (7296, 7304), (7312, 7354), (7357, 7359), (7401, 7404), (7406, 7411), (7413, 7414),
     (7418, 7418), (7424, 7615), (7680, 7957), (7960, 7965), (7968, 8005), (8008, 8013), (8016,
     8023), (8025, 8025), (8027, 8027), (8029, 8029), (8031, 8061), (8064, 8116), (8118, 8124),
     (8126, 8126), (8130, 8132), (8134, 8140), (8144, 8147), (8150, 8155), (8160, 8172), (8178,
     8180), (8182, 8188), (8304, 8305), (8308, 8313), (8319, 8329), (8336, 8348), (8450, 8450),
     (8455, 8455), (8458, 8467), (8469, 8469), (8473, 8477), (8484, 8484), (8486, 8486), (8488,
     8488), (8490, 8493), (8495, 8505), (8508, 8511), (8517, 8521), (8526, 8526), (8528, 8585),
     (9312, 9371), (9450, 9471), (10102, 10131), (11264, 11492), (11499, 11502), (11506, 11507),
     (11517, 11517), (11520, 11557), (11559, 11559), (11565, 11565), (11568, 11623), (11631,
     11631), (11648, 11670), (11680, 11686), (11688, 11694), (11696, 11702), (11704, 11710),
     (11712, 11718), (11720, 11726), (11728, 11734), (11736, 11742), (11823, 11823), (12293,
     12295), (12321, 12329), (12337, 12341), (12344, 12348), (12353, 12438), (12445, 12447),
     (12449, 12538), (12540, 12543), (12549, 12591), (12593, 12686), (12690, 12693), (12704,
     12735), (12784, 12799), (12832, 12841), (12872, 12879), (12881, 12895), (12928, 12937),
     (12977, 12991), (13312, 19903), (19968, 42124), (42192, 42237), (42240, 42508), (42512,
     42539), (42560, 42606), (42623, 42653), (42656, 42735), (42775, 42783), (42786, 42888),
     (42891, 42954), (42960, 42961), (42963, 42963), (42965, 42969), (42994, 43009), (43011,
     43013), (43015, 43018), (43020, 43042), (43056, 43061), (43072, 43123), (43138, 43187),
     (43216, 43225), (43250, 43255), (43259, 43259), (43261, 43262), (43264, 43301), (43312,
     43334), (43360, 43388), (43396, 43442), (43471, 43481), (43488, 43492), (43494, 43518),
     (43520, 43560), (43584, 43586), (43588, 43595), (43600, 43609), (43616, 43638), (43642,
     43642), (43646, 43695), (43697, 43697), (43701, 43702), (43705, 43709), (43712, 43712),
     (43714, 43714), (43739, 43741), (43744, 43754), (43762, 43764), (43777, 43782), (43785,
     43790), (43793, 43798), (43808, 43814), (43816, 43822), (43824, 43866), (43868, 43881),
     (43888, 44002), (44016, 44025), (44032, 55203), (55216, 55238), (55243, 55291), (63744,
     64109), (64112, 64217), (64256, 64262), (64275, 64279), (64285, 64285), (64287, 64296),
     (64298, 64310), (64312, 64316), (64318, 64318), (64320, 64321), (64323, 64324), (64326,
     64433), (64467, 64829), (64848, 64911), (64914, 64967), (65008, 65019), (65136, 65140),
     (65142, 65276), (65296, 65305), (65313, 65338), (65345, 65370), (65382, 65470), (65474,
     65479), (65482, 65487), (65490, 65495), (65498, 65500), (65536, 65547), (65549, 65574),
     (65576, 65594), (65596, 65597), (65599, 65613), (65616, 65629), (65664, 65786), (65799,
     65843), (65856, 65912), (65930, 65931), (66176, 66204), (66208, 66256), (66273, 66299),
     (66304, 66339), (66349, 66378), (66384, 66421), (66432, 66461), (66464, 66499), (66504,
     66511), (66513, 66517), (66560, 66717), (66720, 66729), (66736, 66771), (66776, 66811),
     (66816, 66855), (66864, 66915), (66928, 66938), (66940, 66954), (66956, 66962), (66964,
     66965), (66967, 66977), (66979, 66993), (66995, 67001), (67003, 67004), (67072, 67382),
     (67392, 67413), (67424, 67431), (67456, 67461), (67463, 67504), (67506, 67514), (67584,
     67589), (67592, 67592), (67594, 67637), (67639, 67640), (67644, 67644), (67647, 67669),
     (67672, 67702), (67705, 67742), (67751, 67759), (67808, 67826), (67828, 67829), (67835,
     67867), (67872, 67897), (67968, 68023), (68028, 68047), (68050, 68096), (68112, 68115),
     (68117, 68119), (68121, 68149), (68160, 68168), (68192, 68222), (68224, 68255), (68288,
     68295), (68297, 68324), (68331, 68335), (68352, 68405), (68416, 68437), (68440, 68466),
     (68472, 68497), (68521, 68527), (68608, 68680), (68736, 68786), (68800, 68850), (68858,
     68899), (68912, 68921), (69216, 69246), (69248, 69289), (69296, 69297), (69376, 69415),
     (69424, 69445), (69457, 69460), (69488, 69505), (69552, 69579), (69600, 69622), (69635,
     69687), (69714, 69743), (69745, 69746), (69749, 69749), (69763, 69807), (69840, 69864),
     (69872, 69881), (69891, 69926), (69942, 69951), (69956, 69956), (69959, 69959), (69968,
     70002), (70006, 70006), (70019, 70066), (70081, 70084), (70096, 70106), (70108, 70108),
     (70113, 70132), (70144, 70161), (70163, 70187), (70272, 70278), (70280, 70280), (70282,
     70285), (70287, 70301), (70303, 70312), (70320, 70366), (70384, 70393), (70405, 70412),
     (70415, 70416), (70419, 70440), (70442, 70448), (70450, 70451), (70453, 70457), (70461,
     70461), (70480, 70480), (70493, 70497), (70656, 70708), (70727, 70730), (70736, 70745),
     (70751, 70753), (70784, 70831), (70852, 70853), (70855, 70855), (70864, 70873), (71040,
     71086), (71128, 71131), (71168, 71215), (71236, 71236), (71248, 71257), (71296, 71338),
     (71352, 71352), (71360, 71369), (71424, 71450), (71472, 71483), (71488, 71494), (71680,
     71723), (71840, 71922), (71935, 71942), (71945, 71945), (71948, 71955), (71957, 71958),
     (71960, 71983), (71999, 71999), (72001, 72001), (72016, 72025), (72096, 72103), (72106,
     72144), (72161, 72161), (72163, 72163), (72192, 72192), (72203, 72242), (72250, 72250),
     (72272, 72272), (72284, 72329), (72349, 72349), (72368, 72440), (72704, 72712), (72714,
     72750), (72768, 72768), (72784, 72812), (72818, 72847), (72960, 72966), (72968, 72969),
     (72971, 73008), (73030, 73030), (73040, 73049), (73056, 73061), (73063, 73064), (73066,
     73097), (73112, 73112), (73120, 73129), (73440, 73458), (73648, 73648), (73664, 73684),
     (73728, 74649), (74752, 74862), (74880, 75075), (77712, 77808), (77824, 78894), (82944,
     83526), (92160, 92728), (92736, 92766), (92768, 92777), (92784, 92862), (92864, 92873),
     (92880, 92909), (92928, 92975), (92992, 92995), (93008, 93017), (93019, 93025), (93027,
     93047), (93053, 93071), (93760, 93846), (93952, 94026), (94032, 94032), (94099, 94111),
     (94176, 94177), (94179, 94179), (94208, 100343), (100352, 101589), (101632, 101640),
     (110576, 110579), (110581, 110587), (110589, 110590), (110592, 110882), (110928, 110930),
     (110948, 110951), (110960, 111355), (113664, 113770), (113776, 113788), (113792, 113800),
     (113808, 113817), (119520, 119539), (119648, 119672), (119808, 119892), (119894, 119964),
     (119966, 119967), (119970, 119970), (119973, 119974), (119977, 119980), (119982, 119993),
     (119995, 119995), (119997, 120003), (120005, 120069), (120071, 120074), (120077, 120084),
     (120086, 120092), (120094, 120121), (120123, 120126), (120128, 120132), (120134, 120134),
     (120138, 120144), (120146, 120485), (120488, 120512), (120514, 120538), (120540, 120570),
     (120572, 120596), (120598, 120628), (120630, 120654), (120656, 120686), (120688, 120712),
     (120714, 120744), (120746, 120770), (120772, 120779), (120782, 120831), (122624, 122654),
     (123136, 123180), (123191, 123197), (123200, 123209), (123214, 123214), (123536, 123565),
     (123584, 123627), (123632, 123641), (124896, 124902), (124904, 124907), (124909, 124910),
     (124912, 124926), (124928, 125124), (125127, 125135), (125184, 125251), (125259, 125259),
     (125264, 125273), (126065, 126123), (126125, 126127), (126129, 126132), (126209, 126253),
     (126255, 126269), (126464, 126467), (126469, 126495), (126497, 126498), (126500, 126500),
     (126503, 126503), (126505, 126514), (126516, 126519), (126521, 126521), (126523, 126523),
     (126530, 126530), (126535, 126535), (126537, 126537), (126539, 126539), (126541, 126543),
     (126545, 126546), (126548, 126548), (126551, 126551), (126553, 126553), (126555, 126555),
     (126557, 126557), (126559, 126559), (126561, 126562), (126564, 126564), (126567, 126570),
     (126572, 126578), (126580, 126583), (126585, 126588), (126590, 126590), (126592, 126601),
     (126603, 126619), (126625, 126627), (126629, 126633), (126635, 126651), (127232, 127244),
     (130032, 130041), (131072, 173791), (173824, 177976), (177984, 178205), (178208, 183969),
     (183984, 191456), (194560, 195101), (196608, 201546)]"

definition in_ranges :: "nat \<Rightarrow> (nat \<times> nat) list \<Rightarrow> bool" where
  "in_ranges c rs = list_ex (\<lambda>(lo, hi). lo \<le> c \<and> c \<le> hi) rs"

definition is_space :: "nat \<Rightarrow> bool" where
  "is_space c = in_ranges c uni_space_ranges"

definition is_digit :: "nat \<Rightarrow> bool" where
  "is_digit c = in_ranges c uni_decimal_ranges"

definition is_word :: "nat \<Rightarrow> bool" where
  "is_word c = in_ranges c uni_word_ranges"

text \<open>Every run of decimal digits in the table starts at a digit zero and is a multiple of
  ten long, so the value of a digit is its offset in the run modulo ten.\<close>

definition digit_value :: "nat \<Rightarrow> nat" where
  "digit_value c =
     (case find (\<lambda>(lo, hi). lo \<le> c \<and> c \<le> hi) uni_decimal_ranges of
        Some (lo, hi) \<Rightarrow> (c - lo) mod 10
      | None \<Rightarrow> 0)"

subsection \<open>String operations\<close>

text \<open>\<^verbatim>\<open>s.strip()\<close>: leading and trailing white space removed.\<close>

definition strip :: "ustr \<Rightarrow> ustr" where
  "strip s = rev (dropWhile is_space (rev (dropWhile is_space s)))"

text \<open>\<^verbatim>\<open>k in g\<close> on strings is \<^const>\<open>sublist\<close>; \<^verbatim>\<open>s.startswith(p)\<close> is \<^const>\<open>prefix\<close>;
  \<^verbatim>\<open>s.endswith(t)\<close> with a tuple \<open>t\<close> holds when one member is a \<^const>\<open>suffix\<close>.\<close>

definition any_in :: "ustr list \<Rightarrow> ustr \<Rightarrow> bool" where
  "any_in ks g = list_ex (\<lambda>k. sublist k g) ks"

definition endswith :: "ustr \<Rightarrow> ustr list \<Rightarrow> bool" where
  "endswith s sufs = list_ex (\<lambda>x. suffix x s) sufs"

text \<open>Truthiness of an \<^verbatim>\<open>Optional[str]\<close>: \<^verbatim>\<open>None\<close> and the empty string are false.\<close>

fun truthy :: "ustr option \<Rightarrow> bool" where
  "truthy None = False"
| "truthy (Some s) = (s \<noteq> [])"

text \<open>\<^verbatim>\<open>str(n)\<close> for a natural number and the format \<^verbatim>\<open>{n:02d}\<close> for an integer.\<close>

fun dec_digits :: "nat \<Rightarrow> ustr" where
  "dec_digits n = (if n < 10 then [48 + n] else dec_digits (n div 10) @ [48 + n mod 10])"

definition fmt02d :: "int \<Rightarrow> ustr" where
  "fmt02d n =
     (if n < 0 then 45 # dec_digits (nat (- n))
      else if n < 10 then 48 # dec_digits (nat n)
      else dec_digits (nat n))"

text \<open>
  \<^verbatim>\<open>int(s)\<close> on a string: a non-empty string of decimal digits (of any script) is read in
  base ten.  Python accepts a few more forms (a sign, surrounding white space, underscores
  between digits); the planner only ever passes text captured by \<^verbatim>\<open>\d{1,2}\<close>, and every
  other string is reported here as \<^verbatim>\<open>ValueError\<close>.
\<close>

definition py_int :: "ustr \<Rightarrow> error + int" where
  "py_int s =
     (if s \<noteq> [] \<and> list_all is_digit s
      then Inr (int (foldl (\<lambda>a c. 10 * a + digit_value c) 0 s))
      else Inl ValueError)"

declare dec_digits.simps [simp del]

section \<open>Regular expressions\<close>

text \<open>
  The fragment of Python's \<^verbatim>\<open>re\<close> that the planner's patterns use, with the backtracking
  order of the library: alternatives left to right, greedy repetition longest first, lazy
  repetition shortest first.  Repetition is only needed over a single character class.
  A cursor is the code point just before the current position (\<open>None\<close> at the start of the
  string, needed for \<^verbatim>\<open>\b\<close>) and the rest of the input.
\<close>

datatype cset = Chr nat | Rng nat nat | Dig | Spc

datatype cls = Dot | In "cset list" | NotIn "cset list"

datatype rx =
    Eps
  | One cls
  | Str ustr
  | Seq rx rx
  | Alt rx rx
  | Rep bool nat "nat option" cls
  | WordB
  | Grp nat rx

type_synonym cursor = "nat option \<times> ustr"
type_synonym caps = "nat \<rightharpoonup> ustr"

fun cset_has :: "cset \<Rightarrow> nat \<Rightarrow> bool" where
  "cset_has (Chr a) c = (c = a)"
| "cset_has (Rng lo hi) c = (lo \<le> c \<and> c \<le> hi)"
| "cset_has Dig c = is_digit c"
| "cset_has Spc c = is_space c"

text \<open>Without the DOTALL flag the dot matches every code point but the newline.\<close>

fun cls_has :: "cls \<Rightarrow> nat \<Rightarrow> bool" where
  "cls_has Dot c = (c \<noteq> 10)"
| "cls_has (In xs) c = list_ex (\<lambda>x. cset_has x c) xs"
| "cls_has (NotIn xs) c = (\<not> list_ex (\<lambda>x. cset_has x c) xs)"

definition cat :: "rx list \<Rightarrow> rx" where
  "cat rs = foldr Seq rs Eps"

text \<open>\<^verbatim>\<open>\b\<close>: exactly one of the code points before and after the position is a word
  character; the outside of the string counts as a non-word character.\<close>

definition at_word_boundary :: "cursor \<Rightarrow> bool" where
  "at_word_boundary cur =
     ((case fst cur of None \<Rightarrow> False | Some a \<Rightarrow> is_word a) \<noteq>
      (case snd cur of [] \<Rightarrow> False | b # _ \<Rightarrow> is_word b))"

text \<open>The cursor \<open>n\<close> code points further on.\<close>

definition advance :: "nat \<Rightarrow> cursor \<Rightarrow> cursor" where
  "advance n cur =
     (if take n (snd cur) = [] then fst cur else Some (last (take n (snd cur))),
      drop n (snd cur))"

text \<open>The text between a position and a later one, each given by its remaining input.\<close>

definition consumed :: "ustr \<Rightarrow> ustr \<Rightarrow> ustr" where
  "consumed s s' = take (length s - length s') s"

fun first_some :: "('a \<Rightarrow> 'b option) \<Rightarrow> 'a list \<Rightarrow> 'b option" where
  "first_some f [] = None"
| "first_some f (x # xs) = (case f x of Some y \<Rightarrow> Some y | None \<Rightarrow> first_some f xs)"

text \<open>
  The matcher in continuation-passing style: \<open>bt r cur c k\<close> tries the ways \<open>r\<close> can match
  at \<open>cur\<close> in the library's order and returns the first for which the continuation \<open>k\<close>
  (the rest of the pattern) succeeds.  Group captures travel with the attempt, so a failed
  attempt leaves none behind.
\<close>

primrec bt :: "rx \<Rightarrow> cursor \<Rightarrow> caps \<Rightarrow> (cursor \<Rightarrow> caps \<Rightarrow> 'r option) \<Rightarrow> 'r option" where
  "bt Eps cur c k = k cur c"
| "bt (One cl) cur c k =
     (case snd cur of
        [] \<Rightarrow> None
      | x # xs \<Rightarrow> if cls_has cl x then k (Some x, xs) c else None)"
| "bt (Str w) cur c k =
     (if prefix w (snd cur) then k (advance (length w) cur) c else None)"
| "bt (Seq a b) cur c k = bt a cur c (\<lambda>cur' c'. bt b cur' c' k)"
| "bt (Alt a b) cur c k =
     (case bt a cur c k of Some y \<Rightarrow> Some y | None \<Rightarrow> bt b cur c k)"
| "bt (Rep greedy lo hi cl) cur c k =
     (let run = length (takeWhile (cls_has cl) (snd cur));
          top = (case hi of None \<Rightarrow> run | Some h \<Rightarrow> min h run);
          counts = (if greedy then rev [lo..<Suc top] else [lo..<Suc top])
      in first_some (\<lambda>n. k (advance n cur) c) counts)"
| "bt WordB cur c k = (if at_word_boundary cur then k cur c else None)"
| "bt (Grp n r) cur c k =
     bt r cur c (\<lambda>cur' c'. k cur' (c'(n \<mapsto> consumed (snd cur) (snd cur'))))"

record rmatch =
  m_whole :: ustr
  m_groups :: caps
  m_end :: cursor

definition match_here :: "rx \<Rightarrow> cursor \<Rightarrow> rmatch option" where
  "match_here r cur =
     bt r cur Map.empty
       (\<lambda>cur' c. Some \<lparr>m_whole = consumed (snd cur) (snd cur'), m_groups = c, m_end = cur'\<rparr>)"

text \<open>\<^verbatim>\<open>re.search\<close>: the match at the leftmost position that has one.\<close>

fun search_from :: "rx \<Rightarrow> nat option \<Rightarrow> ustr \<Rightarrow> rmatch option" where
  "search_from r p [] = match_here r (p, [])"
| "search_from r p (x # xs) =
     (case match_here r (p, x # xs) of
        Some m \<Rightarrow> Some m
      | None \<Rightarrow> search_from r (Some x) xs)"

definition re_search :: "rx \<Rightarrow> ustr \<Rightarrow> rmatch option" where
  "re_search r s = search_from r None s"

text \<open>
  \<^verbatim>\<open>re.findall\<close>: the matches found scanning left to right, each search resuming where the
  previous match ended (one code point later after an empty match; the only pattern the
  planner gives to \<^verbatim>\<open>findall\<close> has no empty match).  The tests on the lengths are always
  true: a match ends inside the text it was searched in.
\<close>

function findall_from :: "rx \<Rightarrow> nat option \<Rightarrow> ustr \<Rightarrow> rmatch list" where
  "findall_from r p s =
     (case search_from r p s of
        None \<Rightarrow> []
      | Some m \<Rightarrow>
          m # (if m_whole m \<noteq> []
               then (if length (snd (m_end m)) < length s
                     then findall_from r (fst (m_end m)) (snd (m_end m)) else [])
               else (case snd (m_end m) of
                       [] \<Rightarrow> []
                     | x # xs \<Rightarrow> if length xs < length s then findall_from r (Some x) xs else [])))"
  by pat_completeness auto
termination
  by (relation "measure (\<lambda>(r, p, s). length s)") (auto split: prod.splits)

declare findall_from.simps [simp del]

definition re_findall :: "rx \<Rightarrow> ustr \<Rightarrow> rmatch list" where
  "re_findall r s = findall_from r None s"

text \<open>\<^verbatim>\<open>m.group(n)\<close> is \<^verbatim>\<open>None\<close> for a group that took no part in the match; in the list
  returned by \<^verbatim>\<open>findall\<close> such a group is the empty string.\<close>

definition group :: "rmatch \<Rightarrow> nat \<Rightarrow> ustr option" where
  "group m n = m_groups m n"

definition group_or_empty :: "rmatch \<Rightarrow> nat \<Rightarrow> ustr" where
  "group_or_empty m n = (case m_groups m n of None \<Rightarrow> [] | Some t \<Rightarrow> t)"

section \<open>Keywords and patterns of the planner\<close>

text \<open>The Korean keywords, as code points, named by their romanisation.\<close>

definition chwiso :: ustr where "chwiso = [0xCDE8, 0xC18C]"
definition sakje :: ustr where "sakje = [0xC0AD, 0xC81C]"
definition iljeong :: ustr where "iljeong = [0xC77C, 0xC815]"
definition seukejul :: ustr where "seukejul = [0xC2A4, 0xCF00, 0xC904]"
definition miting :: ustr where "miting = [0xBBF8, 0xD305]"
definition hoeui :: ustr where "hoeui = [0xD68C, 0xC758]"
definition byeongyeong :: ustr where "byeongyeong = [0xBCC0, 0xACBD]"
definition sujeong :: ustr where "sujeong = [0xC218, 0xC815]"
definition olmgyeo :: ustr where "olmgyeo = [0xC62E, 0xACA8]"
definition jaejojeong :: ustr where "jaejojeong = [0xC7AC, 0xC870, 0xC815]"
definition jaba :: ustr where "jaba = [0xC7A1, 0xC544]"
definition deungnok :: ustr where "deungnok = [0xB4F1, 0xB85D]"
definition chuga :: ustr where "chuga = [0xCD94, 0xAC00]"
definition saengseong :: ustr where "saengseong = [0xC0DD, 0xC131]"
definition eseo :: ustr where "eseo = [0xC5D0, 0xC11C]"
definition kkaji :: ustr where "kkaji = [0xAE4C, 0xC9C0]"
definition euro :: ustr where "euro = [0xC73C, 0xB85C]"
definition arrow_sign :: ustr where "arrow_sign = [0x2192]"
definition idong :: ustr where "idong = [0xC774, 0xB3D9]"
definition ganeun :: ustr where "ganeun = [0xAC00, 0xB294]"
definition gaya :: ustr where "gaya = [0xAC00, 0xC57C]"
definition nonmun :: ustr where "nonmun = [0xB17C, 0xBB38]"
definition geomsaek :: ustr where "geomsaek = [0xAC80, 0xC0C9]"
definition seochi :: ustr where "seochi = [0xC11C, 0xCE58]"
definition chaja :: ustr where "chaja = [0xCC3E, 0xC544]"
definition yoyak :: ustr where "yoyak = [0xC694, 0xC57D]"
definition nyuseu :: ustr where "nyuseu = [0xB274, 0xC2A4]"
definition bunseok :: ustr where "bunseok = [0xBD84, 0xC11D]"
definition jeongni :: ustr where "jeongni = [0xC815, 0xB9AC]"
definition katok :: ustr where "katok = [0xCE74, 0xD1A1]"
definition kakao :: ustr where "kakao = [0xCE74, 0xCE74, 0xC624]"
definition bonae :: ustr where "bonae = [0xBCF4, 0xB0B4]"
definition oneul :: ustr where "oneul = [0xC624, 0xB298]"
definition naeil :: ustr where "naeil = [0xB0B4, 0xC77C]"
definition ojeon :: ustr where "ojeon = [0xC624, 0xC804]"
definition ohu :: ustr where "ohu = [0xC624, 0xD6C4]"
definition si :: ustr where "si = [0xC2DC]"
definition bun :: ustr where "bun = [0xBD84]"
definition jeonyeok :: ustr where "jeonyeok = [0xC800, 0xB141]"
definition bam :: ustr where "bam = [0xBC24]"
definition jemok :: ustr where "jemok = [0xC81C, 0xBAA9]"

text \<open>\<^verbatim>\<open>\b(20\d{2})-(\d{2})-(\d{2})\b\<close>\<close>

definition date_re :: rx where
  "date_re =
     cat [WordB,
          Grp 1 (cat [Str (asc ''20''), Rep True 2 (Some 2) (In [Dig])]),
          Str (asc ''-''),
          Grp 2 (Rep True 2 (Some 2) (In [Dig])),
          Str (asc ''-''),
          Grp 3 (Rep True 2 (Some 2) (In [Dig])),
          WordB]"

text \<open>\<^verbatim>\<open>\b(\d{1,2}):(\d{2})\b\<close>\<close>

definition time_colon_re :: rx where
  "time_colon_re =
     cat [WordB,
          Grp 1 (Rep True 1 (Some 2) (In [Dig])),
          Str (asc '':''),
          Grp 2 (Rep True 2 (Some 2) (In [Dig])),
          WordB]"

text \<open>\<^verbatim>\<open>(M)\s*(\d{1,2})H(?:\s*(\d{1,2})B)?\<close> where \<open>M\<close> is the alternation of the given
  markers, \<open>H\<close> the hour sign \<open>si\<close> and \<open>B\<close> the minute sign \<open>bun\<close>.\<close>

definition time_marked_re :: "ustr \<Rightarrow> ustr \<Rightarrow> rx" where
  "time_marked_re m1 m2 =
     cat [Grp 1 (Alt (Str m1) (Str m2)),
          Rep True 0 None (In [Spc]),
          Grp 2 (Rep True 1 (Some 2) (In [Dig])),
          Str si,
          Alt (cat [Rep True 0 None (In [Spc]),
                    Grp 3 (Rep True 1 (Some 2) (In [Dig])),
                    Str bun])
              Eps]"

text \<open>\<^verbatim>\<open>(.+?)E\s*(.+?)(?:R|K)\<close> with \<open>E\<close> = \<open>eseo\<close>, \<open>R\<close> = \<open>euro\<close>, \<open>K\<close> = \<open>kkaji\<close>.\<close>

definition route_re :: rx where
  "route_re =
     cat [Grp 1 (Rep False 1 None Dot),
          Str eseo,
          Rep True 0 None (In [Spc]),
          Grp 2 (Rep False 1 None Dot),
          Alt (Str euro) (Str kkaji)]"

text \<open>\<^verbatim>\<open>(.+?)\s*(?:->|A)\s*(.+)\<close> with \<open>A\<close> the arrow sign U+2192.\<close>

definition arrow_re :: rx where
  "arrow_re =
     cat [Grp 1 (Rep False 1 None Dot),
          Rep True 0 None (In [Spc]),
          Alt (Str (asc ''->'')) (Str arrow_sign),
          Rep True 0 None (In [Spc]),
          Grp 2 (Rep True 1 None Dot)]"

text \<open>\<^verbatim>\<open>[A-Za-z0-9._%+-]+@[A-Za-z0-9.-]+\.[A-Za-z]{2,}\<close>\<close>

definition email_re :: rx where
  "email_re =
     cat [Rep True 1 None
            (In [Rng 65 90, Rng 97 122, Rng 48 57, Chr 46, Chr 95, Chr 37, Chr 43, Chr 45]),
          Str (asc ''@''),
          Rep True 1 None (In [Rng 65 90, Rng 97 122, Rng 48 57, Chr 46, Chr 45]),
          Str (asc ''.''),
          Rep True 2 None (In [Rng 65 90, Rng 97 122])]"

text \<open>\<^verbatim>\<open>J\s*[:=]\s*([^,\n]+)\<close> with \<open>J\<close> = \<open>jemok\<close>.\<close>

definition title_marker_re :: rx where
  "title_marker_re =
     cat [Str jemok,
          Rep True 0 None (In [Spc]),
          One (In [Chr 58, Chr 61]),
          Rep True 0 None (In [Spc]),
          Grp 1 (Rep True 1 None (NotIn [Chr 44, Chr 10]))]"

text \<open>\<^verbatim>\<open>[Q]([^\n\r\t]{2,50})[Q]\<close> where \<open>Q\<close> is the double quote, the curly double quotes
  U+201C and U+201D, and the apostrophe.\<close>

definition title_quoted_re :: rx where
  "title_quoted_re =
     cat [One (In [Chr 34, Chr 0x201C, Chr 0x201D, Chr 39]),
          Grp 1 (Rep True 2 (Some 50) (NotIn [Chr 10, Chr 13, Chr 9])),
          One (In [Chr 34, Chr 0x201C, Chr 0x201D, Chr 39])]"

section \<open>Intent classifier\<close>

definition schedule_nouns :: "ustr list" where
  "schedule_nouns = [iljeong, seukejul, miting, hoeui]"

definition classify_intent :: "ustr \<Rightarrow> ustr" where
  "classify_intent goal =
     (let g = strip goal in
      if any_in [chwiso, sakje] g \<and> any_in schedule_nouns g then asc ''schedule_cancel''
      else if any_in [byeongyeong, sujeong, olmgyeo, jaejojeong] g \<and> any_in schedule_nouns g
        then asc ''schedule_update''
      else if any_in [jaba, deungnok, chuga, saengseong] g \<and> any_in schedule_nouns g
        then asc ''schedule_create''
      else if any_in [eseo, kkaji, euro, arrow_sign, asc ''->'', idong, ganeun, gaya] g
        then asc ''route''
      else if sublist nonmun g \<and> any_in [geomsaek, seochi, chaja, yoyak] g
        then asc ''paper_search_summarize_email''
      else if sublist nyuseu g \<and> any_in [bunseok, yoyak, jeongni] g
              \<and> any_in [katok, kakao, bonae] g
        then asc ''news_analyze_kakao_send''
      else asc ''unknown'')"

section \<open>Slot extractors\<close>

definition ebind :: "error + 'a \<Rightarrow> ('a \<Rightarrow> error + 'b) \<Rightarrow> error + 'b" where
  "ebind x f = (case x of Inl e \<Rightarrow> Inl e | Inr v \<Rightarrow> f v)"

definition infer_date_token :: "ustr \<Rightarrow> ustr" where
  "infer_date_token goal =
     (case re_search date_re goal of
        Some m \<Rightarrow> m_whole m
      | None \<Rightarrow>
          if sublist oneul goal then asc ''today''
          else if sublist naeil goal then asc ''tomorrow''
          else asc ''unknown'')"

text \<open>\<^verbatim>\<open>int(m.group(n))\<close> and \<^verbatim>\<open>int(m.group(n) or 0)\<close>.\<close>

definition int_group :: "rmatch \<Rightarrow> nat \<Rightarrow> error + int" where
  "int_group m n = (case group m n of None \<Rightarrow> Inl TypeError | Some t \<Rightarrow> py_int t)"

definition int_group_or_0 :: "rmatch \<Rightarrow> nat \<Rightarrow> error + int" where
  "int_group_or_0 m n = (if truthy (group m n) then py_int (the (group m n)) else Inr 0)"

definition in_range :: "int \<Rightarrow> int \<Rightarrow> bool" where
  "in_range hh mm = (0 \<le> hh \<and> hh \<le> 23 \<and> 0 \<le> mm \<and> mm \<le> 59)"

definition fmt_hhmm :: "int \<Rightarrow> int \<Rightarrow> ustr" where
  "fmt_hhmm hh mm = fmt02d hh @ asc '':'' @ fmt02d mm"

text \<open>
  The three blocks of \<^verbatim>\<open>_infer_hhmm\<close>.  Each gives the hour and minute it read from the
  first match of its pattern, after its own adjustment of the hour, or \<open>None\<close> when its
  pattern has no match.
\<close>

definition hhmm_colon :: "ustr \<Rightarrow> error + (int \<times> int) option" where
  "hhmm_colon g =
     (case re_search time_colon_re g of
        None \<Rightarrow> Inr None
      | Some m \<Rightarrow>
          ebind (int_group m 1) (\<lambda>hh.
          ebind (int_group m 2) (\<lambda>mm.
          Inr (Some (hh, mm)))))"

definition hhmm_ampm :: "ustr \<Rightarrow> error + (int \<times> int) option" where
  "hhmm_ampm g =
     (case re_search (time_marked_re ojeon ohu) g of
        None \<Rightarrow> Inr None
      | Some m \<Rightarrow>
          (let ampm = group m 1 in
           ebind (int_group m 2) (\<lambda>hh.
           ebind (int_group_or_0 m 3) (\<lambda>mm.
           let hh1 = (if ampm = Some ohu \<and> hh < 12 then hh + 12 else hh);
               hh2 = (if ampm = Some ojeon \<and> hh1 = 12 then 0 else hh1)
           in Inr (Some (hh2, mm))))))"

definition hhmm_evening :: "ustr \<Rightarrow> error + (int \<times> int) option" where
  "hhmm_evening g =
     (case re_search (time_marked_re jeonyeok bam) g of
        None \<Rightarrow> Inr None
      | Some m \<Rightarrow>
          ebind (int_group m 2) (\<lambda>hh.
          ebind (int_group_or_0 m 3) (\<lambda>mm.
          let hh1 = (if hh < 12 then hh + 12 else hh)
          in Inr (Some (hh1, mm)))))"

text \<open>The range check that ends each block: the formatted time, or \<open>None\<close> to go on.\<close>

fun checked :: "(int \<times> int) option \<Rightarrow> ustr option" where
  "checked None = None"
| "checked (Some (hh, mm)) = (if in_range hh mm then Some (fmt_hhmm hh mm) else None)"

definition infer_hhmm :: "ustr \<Rightarrow> error + ustr option" where
  "infer_hhmm goal =
     (let g = strip goal in
      ebind (hhmm_colon g) (\<lambda>c1.
      case checked c1 of
        Some t \<Rightarrow> Inr (Some t)
      | None \<Rightarrow>
          ebind (hhmm_ampm g) (\<lambda>c2.
          case checked c2 of
            Some t \<Rightarrow> Inr (Some t)
          | None \<Rightarrow>
              ebind (hhmm_evening g) (\<lambda>c3.
              case checked c3 of
                Some t \<Rightarrow> Inr (Some t)
              | None \<Rightarrow> Inr None))))"

text \<open>\<^verbatim>\<open>m.group(n).strip()\<close>\<close>

definition strip_group :: "rmatch \<Rightarrow> nat \<Rightarrow> error + ustr" where
  "strip_group m n =
     (case group m n of None \<Rightarrow> Inl AttributeError | Some t \<Rightarrow> Inr (strip t))"

definition infer_route :: "ustr \<Rightarrow> error + (ustr option \<times> ustr option)" where
  "infer_route goal =
     (let g = strip goal;
          m_list = map (\<lambda>m. (group_or_empty m 1, group_or_empty m 2)) (re_findall route_re g)
      in if m_list \<noteq> []
         then (case last m_list of (frm, to) \<Rightarrow> Inr (Some (strip frm), Some (strip to)))
         else (case re_search arrow_re g of
                 Some m \<Rightarrow>
                   ebind (strip_group m 1) (\<lambda>a.
                   ebind (strip_group m 2) (\<lambda>b.
                   Inr (Some a, Some b)))
               | None \<Rightarrow> Inr (None, None)))"

definition infer_email :: "ustr \<Rightarrow> ustr option" where
  "infer_email goal =
     (case re_search email_re goal of Some m \<Rightarrow> Some (m_whole m) | None \<Rightarrow> None)"

definition infer_title :: "ustr \<Rightarrow> error + ustr option" where
  "infer_title goal =
     (case re_search title_marker_re goal of
        Some m \<Rightarrow> ebind (strip_group m 1) (\<lambda>t. Inr (Some t))
      | None \<Rightarrow>
          (case re_search title_quoted_re goal of
             Some m \<Rightarrow> ebind (strip_group m 1) (\<lambda>t. Inr (Some t))
           | None \<Rightarrow> Inr None))"

section \<open>Plan compiler\<close>

text \<open>
  The classes \<^verbatim>\<open>PlanStep\<close> and \<^verbatim>\<open>Plan\<close> come from a module that is not part of the
  sources at hand; the records hold the fields that \<^verbatim>\<open>create_plan\<close> sets.  The arguments
  of a step are a dictionary built in a fixed order, kept as an association list.
\<close>

record PlanStep =
  step_id :: ustr
  tool_name :: ustr
  args :: "(ustr \<times> ustr) list"

record Plan =
  plan_id :: ustr
  intent :: ustr
  steps :: "PlanStep list"
  assumptions :: "ustr list"
  required_confirmations :: "ustr list"
  execution_hint :: ustr

definition msg_confirm_policy :: ustr where
  "msg_confirm_policy =
     asc ''create/update/delete/send'' @
     [32, 0xB958, 0xB294, 32, 0xC0AC, 0xC6A9, 0xC790, 32, 0xD655, 0xC778] @
     asc ''(required_confirmations)'' @
     [32, 0xD6C4, 32, 0xC2E4, 0xD589, 0xD569, 0xB2C8, 0xB2E4, 46]"

definition msg_no_tools :: ustr where
  "msg_no_tools =
     asc ''available_tools'' @
     [0xAC00, 32, 0xC81C, 0xACF5, 0xB418, 0xC9C0, 32, 0xC54A, 0xC558, 0xC2B5] @
     [0xB2C8, 0xB2E4] @
     asc ''. steps'' @
     [0xB294, 32, 39, 0xAC00, 0xC815, 0xB41C, 32, 0xB3C4, 0xAD6C, 39] @
     [0xB97C, 32, 0xD3EC, 0xD568, 0xD560, 32, 0xC218, 32, 0xC788, 0xC73C] @
     [0xBA70] @
     asc '', tb_plan_validate'' @
     [0xB85C, 32, 0xB204, 0xB77D, 32, 0xB3C4, 0xAD6C, 0xB97C, 32, 0xD655] @
     [0xC778, 0xD558, 0xC138, 0xC694, 46]"

definition msg_route_unparsed :: ustr where
  "msg_route_unparsed =
     [0xCD9C, 0xBC1C, 47, 0xB3C4, 0xCC29, 0xC744, 32, 0xD30C, 0xC2F1, 0xD558] @
     [0xC9C0, 32, 0xBABB, 0xD588, 0xC2B5, 0xB2C8, 0xB2E4, 46, 32, 0xC608] @
     [58, 32, 39, 0xD310, 0xAD50, 0xC5D0, 0xC11C, 32, 0xAC15, 0xB0A8] @
     [0xC73C, 0xB85C, 39, 32, 0xB610, 0xB294, 32, 39, 0xD310, 0xAD50] @
     [32, 45, 62, 32, 0xAC15, 0xB0A8, 39]"

definition msg_title_unparsed :: ustr where
  "msg_title_unparsed =
     [0xC77C, 0xC815, 32, 0xC81C, 0xBAA9] @
     asc ''(title)'' @
     [0xC744, 32, 0xD30C, 0xC2F1, 0xD558, 0xC9C0, 32, 0xBABB, 0xD588, 0xC2B5] @
     [0xB2C8, 0xB2E4, 46, 32, 0xC608, 58, 32, 34, 0xC81C, 0xBAA9] @
     [58, 32, 0xBBF8, 0xD305, 34, 32, 0xB610, 0xB294, 32, 34] @
     [39, 0xBBF8, 0xD305, 39, 32, 0xC77C, 0xC815, 32, 0xC7A1, 0xC544] @
     [0xC918, 34]"

definition msg_time_unparsed :: ustr where
  "msg_time_unparsed =
     [0xC2DC, 0xAC04] @
     asc ''(hh:mm)'' @
     [0xC744, 32, 0xD30C, 0xC2F1, 0xD558, 0xC9C0, 32, 0xBABB, 0xD588, 0xC2B5] @
     [0xB2C8, 0xB2E4, 46, 32, 0xC608, 58, 32, 39, 0xC624, 0xB298] @
     [32] @
     asc ''20:00'' @
     [39, 32, 0xB610, 0xB294, 32, 39, 0xC624, 0xD6C4, 32, 56] @
     [0xC2DC, 39]"

definition msg_update_needs_ref :: ustr where
  "msg_update_needs_ref =
     asc ''schedule_update'' @
     [0xB294] @
     [32] @
     asc ''event'' @
     [32, 0xC2DD, 0xBCC4, 0xC790] @
     asc ''(event_ref)'' @
     [0xC640, 32, 0xBCC0, 0xACBD, 0xC0AC, 0xD56D] @
     asc ''(changes)'' @
     [0xC774, 32, 0xD544, 0xC694, 0xD569, 0xB2C8, 0xB2E4, 46]"

definition msg_cancel_needs_ref :: ustr where
  "msg_cancel_needs_ref =
     asc ''schedule_cancel'' @
     [0xC740, 32, 0xCDE8, 0xC18C, 0xD560, 32, 0xC77C, 0xC815, 32, 0xC2DD] @
     [0xBCC4, 0xC790] @
     asc ''(event_ref)'' @
     [32, 0xB610, 0xB294, 32, 0xC81C, 0xBAA9, 0xC774, 32, 0xD544, 0xC694] @
     [0xD569, 0xB2C8, 0xB2E4, 46]"

definition msg_email_missing :: ustr where
  "msg_email_missing =
     [0xBC1B, 0xC744, 32, 0xC774, 0xBA54, 0xC77C] @
     asc ''(to_email)'' @
     [0xC744, 32, 0xCC3E, 0xC9C0, 32, 0xBABB, 0xD588, 0xC2B5, 0xB2C8, 0xB2E4] @
     [46, 32, 0xC608] @
     asc '': user@example.com''"

definition msg_paper_query :: ustr where
  "msg_paper_query =
     [0xB17C, 0xBB38, 32, 0xAC80, 0xC0C9, 32, 0xD0A4, 0xC6CC, 0xB4DC] @
     asc ''(query)'' @
     [0xB294] @
     [32] @
     asc ''goal'' @
     [0xC5D0, 32, 0xBA85, 0xD655, 0xD788, 32, 0xD3EC, 0xD568, 0xD558, 0xB294] @
     [32, 0xAC83, 0xC744, 32, 0xAD8C, 0xC7A5, 0xD569, 0xB2C8, 0xB2E4, 46] @
     [32, 0xC608, 58, 32, 39, 0xB17C, 0xBB38, 32, 0xAC80, 0xC0C9] @
     asc '': retrieval augmented generation'' @
     [39]"

definition msg_news_topic :: ustr where
  "msg_news_topic =
     [0xB274, 0xC2A4, 32, 0xC8FC, 0xC81C] @
     asc ''(topic)'' @
     [0xC640, 32, 0xCE74, 0xD1A1, 32, 0xB300, 0xC0C1] @
     asc ''(target)'' @
     [0xC744] @
     [32] @
     asc ''goal'' @
     [0xC5D0, 32, 0xBA85, 0xD655, 0xD788, 32, 0xD3EC, 0xD568, 0xD558, 0xB294] @
     [32, 0xAC83, 0xC744, 32, 0xAD8C, 0xC7A5, 0xD569, 0xB2C8, 0xB2E4, 46]"

definition msg_unknown_intent :: ustr where
  "msg_unknown_intent =
     [0xC758, 0xB3C4, 0xB97C, 32, 0xBD84, 0xB958, 0xD558, 0xC9C0, 32, 0xBABB] @
     [0xD588, 0xC2B5, 0xB2C8, 0xB2E4] @
     asc ''. goal'' @
     [0xC744, 32, 0xB354, 32, 0xAD6C, 0xCCB4, 0xC801, 0xC73C, 0xB85C, 32] @
     [0xC791, 0xC131, 0xD558, 0xC138, 0xC694, 46]"

definition msg_requires_confirmation :: ustr where
  "msg_requires_confirmation =
     [32] @
     asc ''requires user confirmation''"

definition execution_hint_text :: ustr where
  "execution_hint_text =
     asc ''Execute steps sequentially using tool_name and args as-is. S'' @
     asc ''ummarize each step result.''"

definition is_write_like :: "ustr \<Rightarrow> bool" where
  "is_write_like name =
     endswith name
       [asc ''.create'', asc ''.write'', asc ''.update'', asc ''.delete'', asc ''.send'']"

text \<open>The tool filter: strict mode applies only when the list of available tools is not
  empty.\<close>

definition allow :: "bool \<Rightarrow> ustr list \<Rightarrow> ustr \<Rightarrow> bool" where
  "allow strict_available_tools avail_list name =
     (if strict_available_tools \<and> avail_list \<noteq> [] then name \<in> set avail_list else True)"

text \<open>
  The branches of \<^verbatim>\<open>create_plan\<close>, one definition each.  A branch takes the goal, the
  tool filter and the assumptions so far and gives the steps and the assumptions after it.
\<close>

definition plan_route ::
  "ustr \<Rightarrow> (ustr \<Rightarrow> bool) \<Rightarrow> ustr list \<Rightarrow> error + (PlanStep list \<times> ustr list)" where
  "plan_route goal ok assumptions0 =
     ebind (infer_route goal) (\<lambda>(frm, to).
     let date_token = infer_date_token goal in
     ebind (infer_hhmm goal) (\<lambda>hhmm.
     if \<not> truthy frm \<or> \<not> truthy to
     then Inr ([], assumptions0 @ [msg_route_unparsed])
     else
       (let steps1 =
              (if ok (asc ''calendar.read'')
               then [\<lparr>step_id = asc ''step-1'', tool_name = asc ''calendar.read'',
                      args = [(asc ''date'', date_token)]\<rparr>]
               else []);
            steps2 =
              (if ok (asc ''map.route'')
               then steps1 @
                    [\<lparr>step_id = asc ''step-'' @ dec_digits (length steps1 + 1),
                      tool_name = asc ''map.route'',
                      args = [(asc ''from'', the frm), (asc ''to'', the to)] @
                             (if truthy hhmm then [(asc ''depart_time'', the hhmm)] else [])\<rparr>]
               else steps1)
        in Inr (steps2, assumptions0))))"

definition plan_schedule_create ::
  "ustr \<Rightarrow> (ustr \<Rightarrow> bool) \<Rightarrow> ustr list \<Rightarrow> error + (PlanStep list \<times> ustr list)" where
  "plan_schedule_create goal ok assumptions0 =
     ebind (infer_title goal) (\<lambda>title.
     let date_token = infer_date_token goal in
     ebind (infer_hhmm goal) (\<lambda>hhmm.
     let assumptions1 =
           (if \<not> truthy title then assumptions0 @ [msg_title_unparsed] else assumptions0);
         assumptions2 =
           (if \<not> truthy hhmm then assumptions1 @ [msg_time_unparsed] else assumptions1)
     in if truthy title \<and> truthy hhmm
        then
          (let steps1 =
                 (if ok (asc ''calendar.read'')
                  then [\<lparr>step_id = asc ''step-1'', tool_name = asc ''calendar.read'',
                         args = [(asc ''date'', date_token)]\<rparr>]
                  else []);
               steps2 =
                 (if ok (asc ''calendar.create'')
                  then steps1 @
                       [\<lparr>step_id = asc ''step-'' @ dec_digits (length steps1 + 1),
                         tool_name = asc ''calendar.create'',
                         args = [(asc ''title'', the title), (asc ''date'', date_token),
                                 (asc ''time'', the hhmm)]\<rparr>]
                  else steps1)
           in Inr (steps2, assumptions2))
        else Inr ([], assumptions2)))"

definition plan_paper ::
  "ustr \<Rightarrow> (ustr \<Rightarrow> bool) \<Rightarrow> ustr list \<Rightarrow> PlanStep list \<times> ustr list" where
  "plan_paper goal ok assumptions0 =
     (let to_email = infer_email goal;
          assumptions1 =
            (if \<not> truthy to_email then assumptions0 @ [msg_email_missing] else assumptions0);
          assumptions2 = assumptions1 @ [msg_paper_query]
      in if truthy to_email \<and> ok (asc ''paper.search'') \<and> ok (asc ''paper.summarize'')
              \<and> ok (asc ''email.send'')
         then ([\<lparr>step_id = asc ''step-1'', tool_name = asc ''paper.search'',
                  args = [(asc ''query'', goal)]\<rparr>,
                \<lparr>step_id = asc ''step-2'', tool_name = asc ''paper.summarize'',
                  args = [(asc ''query'', goal)]\<rparr>,
                \<lparr>step_id = asc ''step-3'', tool_name = asc ''email.send'',
                  args = [(asc ''to'', the to_email)]\<rparr>],
               assumptions2)
         else ([], assumptions2))"

definition plan_news ::
  "ustr \<Rightarrow> (ustr \<Rightarrow> bool) \<Rightarrow> ustr list \<Rightarrow> PlanStep list \<times> ustr list" where
  "plan_news goal ok assumptions0 =
     (let assumptions1 = assumptions0 @ [msg_news_topic]
      in if ok (asc ''news.search'') \<and> ok (asc ''news.summarize'') \<and> ok (asc ''kakao.send'')
         then ([\<lparr>step_id = asc ''step-1'', tool_name = asc ''news.search'',
                  args = [(asc ''topic'', goal)]\<rparr>,
                \<lparr>step_id = asc ''step-2'', tool_name = asc ''news.summarize'',
                  args = [(asc ''topic'', goal)]\<rparr>,
                \<lparr>step_id = asc ''step-3'', tool_name = asc ''kakao.send'',
                  args = [(asc ''target'', asc ''me'')]\<rparr>],
               assumptions1)
         else ([], assumptions1))"

text \<open>The loop that collects the confirmations, with the list built so far.\<close>

fun confirmations :: "PlanStep list \<Rightarrow> ustr list \<Rightarrow> ustr list" where
  "confirmations [] acc = acc"
| "confirmations (s # ss) acc =
     confirmations ss
       (if is_write_like (tool_name s)
        then acc @ [tool_name s @ msg_requires_confirmation]
        else acc)"

text \<open>The chain of branches on the classified intent.\<close>

definition plan_body ::
  "ustr \<Rightarrow> ustr \<Rightarrow> (ustr \<Rightarrow> bool) \<Rightarrow> ustr list \<Rightarrow> error + (PlanStep list \<times> ustr list)" where
  "plan_body intent_type goal ok assumptions1 =
     (if intent_type = asc ''route'' then plan_route goal ok assumptions1
      else if intent_type = asc ''schedule_create''
        then plan_schedule_create goal ok assumptions1
      else if intent_type = asc ''schedule_update''
        then Inr ([], assumptions1 @ [msg_update_needs_ref])
      else if intent_type = asc ''schedule_cancel''
        then Inr ([], assumptions1 @ [msg_cancel_needs_ref])
      else if intent_type = asc ''paper_search_summarize_email''
        then Inr (plan_paper goal ok assumptions1)
      else if intent_type = asc ''news_analyze_kakao_send''
        then Inr (plan_news goal ok assumptions1)
      else Inr ([], assumptions1 @ [msg_unknown_intent]))"

text \<open>
  \<^verbatim>\<open>create_plan\<close>.  The first argument stands for the 32 hexadecimal digits of the fresh
  \<^verbatim>\<open>uuid4\<close> that the call draws; it is the only input that is not an argument of the
  Python function.
\<close>

definition create_plan :: "ustr \<Rightarrow> ustr \<Rightarrow> ustr list option \<Rightarrow> bool \<Rightarrow> error + Plan" where
  "create_plan uuid_hex goal available_tools strict_available_tools =
     (let pid = asc ''plan-'' @ take 8 uuid_hex;
          intent_type = classify_intent goal;
          assumptions0 = [msg_confirm_policy];
          avail_list = (case available_tools of None \<Rightarrow> [] | Some ts \<Rightarrow> ts);
          ok = allow strict_available_tools avail_list;
          assumptions1 =
            (if avail_list = [] then assumptions0 @ [msg_no_tools] else assumptions0)
      in ebind (plan_body intent_type goal ok assumptions1)
           (\<lambda>(steps1, assumptions2).
              Inr \<lparr>plan_id = pid, intent = goal, steps = steps1, assumptions = assumptions2,
                   required_confirmations = confirmations steps1 [],
                   execution_hint = execution_hint_text\<rparr>))"

section \<open>What a pattern accepts\<close>

text \<open>
  The matches of a pattern without their order: \<open>accepts r cur c cur' c'\<close> holds when \<open>r\<close>
  can match from the cursor \<open>cur\<close> to the cursor \<open>cur'\<close>, turning the captures \<open>c\<close> into
  \<open>c'\<close>.  The matcher finds one of these matches, and finds none only when there is none
  that the rest of the pattern accepts.
\<close>

primrec accepts :: "rx \<Rightarrow> cursor \<Rightarrow> caps \<Rightarrow> cursor \<Rightarrow> caps \<Rightarrow> bool" where
  "accepts Eps cur c cur' c' = (cur' = cur \<and> c' = c)"
| "accepts (One cl) cur c cur' c' =
     (\<exists>x xs. snd cur = x # xs \<and> cls_has cl x \<and> cur' = (Some x, xs) \<and> c' = c)"
| "accepts (Str w) cur c cur' c' =
     (prefix w (snd cur) \<and> cur' = advance (length w) cur \<and> c' = c)"
| "accepts (Seq a b) cur c cur' c' =
     (\<exists>mid cm. accepts a cur c mid cm \<and> accepts b mid cm cur' c')"
| "accepts (Alt a b) cur c cur' c' = (accepts a cur c cur' c' \<or> accepts b cur c cur' c')"
| "accepts (Rep greedy lo hi cl) cur c cur' c' =
     (\<exists>n. lo \<le> n \<and> (case hi of None \<Rightarrow> True | Some h \<Rightarrow> n \<le> h)
          \<and> n \<le> length (takeWhile (cls_has cl) (snd cur))
          \<and> cur' = advance n cur \<and> c' = c)"
| "accepts WordB cur c cur' c' = (at_word_boundary cur \<and> cur' = cur \<and> c' = c)"
| "accepts (Grp n r) cur c cur' c' =
     (\<exists>c''. accepts r cur c cur' c'' \<and> c' = c''(n \<mapsto> consumed (snd cur) (snd cur')))"

text \<open>The groups that every match of a pattern sets.\<close>

primrec sure_groups :: "rx \<Rightarrow> nat set" where
  "sure_groups Eps = {}"
| "sure_groups (One cl) = {}"
| "sure_groups (Str w) = {}"
| "sure_groups (Seq a b) = sure_groups a \<union> sure_groups b"
| "sure_groups (Alt a b) = sure_groups a \<inter> sure_groups b"
| "sure_groups (Rep g lo hi cl) = {}"
| "sure_groups WordB = {}"
| "sure_groups (Grp n r) = insert n (sure_groups r)"

definition digits_text :: "ustr \<Rightarrow> bool" where
  "digits_text t = (t \<noteq> [] \<and> list_all is_digit t)"

section \<open>Notions used in the statements\<close>

text \<open>The list of available tools that \<^verbatim>\<open>create_plan\<close> works with, and the assumptions it
  starts from before it looks at the intent.\<close>

definition avail_of :: "ustr list option \<Rightarrow> ustr list" where
  "avail_of av = (case av of None \<Rightarrow> [] | Some ts \<Rightarrow> ts)"

definition start_assumptions :: "ustr list option \<Rightarrow> ustr list" where
  "start_assumptions av =
     (if avail_of av = [] then [msg_confirm_policy, msg_no_tools] else [msg_confirm_policy])"

text \<open>Steps numbered \<^verbatim>\<open>step-1\<close>, \<^verbatim>\<open>step-2\<close>, ... in their order.\<close>

definition numbered :: "PlanStep list \<Rightarrow> bool" where
  "numbered st = (\<forall>i<length st. step_id (st ! i) = asc ''step-'' @ dec_digits (i + 1))"

text \<open>Inputs for the examples: a fixed draw of the identifier, a route goal (``from Pangyo
  to Gangnam''), the cancel goal of scenario C of the specification and a news goal.\<close>

definition uuid0 :: ustr where
  "uuid0 = asc ''0123456789abcdef0123456789abcdef''"

definition pangyo :: ustr where "pangyo = [0xD310, 0xAD50]"
definition gangnam :: ustr where "gangnam = [0xAC15, 0xB0A8]"

definition goal_route :: ustr where
  "goal_route = [0xD310, 0xAD50, 0xC5D0, 0xC11C, 32, 0xAC15, 0xB0A8, 0xC73C, 0xB85C]"

definition goal_cancel :: ustr where
  "goal_cancel = [0xBBF8, 0xD305, 32, 0xCDE8, 0xC18C, 0xD574, 0xC918]"

definition goal_news :: ustr where
  "goal_news = [0xB274, 0xC2A4, 32, 0xC694, 0xC57D, 32, 0xCE74, 0xD1A1]"

section \<open>The matcher and what a pattern accepts\<close>

lemma first_some_SomeD: "first_some f xs = Some y \<Longrightarrow> \<exists>x \<in> set xs. f x = Some y"
  by (induction xs) (auto split: option.splits)

lemma first_some_None: "first_some f xs = None \<longleftrightarrow> (\<forall>x \<in> set xs. f x = None)"
  by (induction xs) (auto split: option.splits)

lemma bt_sound:
  "bt r cur c k = Some y \<Longrightarrow> \<exists>cur' c'. accepts r cur c cur' c' \<and> k cur' c' = Some y"
proof (induction r arbitrary: cur c k y)
  case (Seq a b)
  from Seq.prems have "bt a cur c (\<lambda>cur' c'. bt b cur' c' k) = Some y" by simp
  from Seq.IH(1)[OF this] obtain mid cm where
    a: "accepts a cur c mid cm" and b: "bt b mid cm k = Some y" by blast
  from Seq.IH(2)[OF b] obtain cur' c' where
    b': "accepts b mid cm cur' c'" and k: "k cur' c' = Some y" by blast
  from a b' have "accepts (Seq a b) cur c cur' c'" by (simp only: accepts.simps) blast
  with k show ?case by blast
next
  case (Alt a b)
  show ?case
  proof (cases "bt a cur c k")
    case None
    with Alt.prems have "bt b cur c k = Some y" by simp
    from Alt.IH(2)[OF this] show ?thesis by (simp only: accepts.simps) blast
  next
    case (Some z)
    with Alt.prems have "bt a cur c k = Some y" by simp
    from Alt.IH(1)[OF this] show ?thesis by (simp only: accepts.simps) blast
  qed
next
  case (Rep g lo hi cl)
  define run where "run = length (takeWhile (cls_has cl) (snd cur))"
  define top where "top = (case hi of None \<Rightarrow> run | Some h \<Rightarrow> min h run)"
  from Rep.prems have
    "first_some (\<lambda>n. k (advance n cur) c) (if g then rev [lo..<Suc top] else [lo..<Suc top]) = Some y"
    unfolding run_def top_def by (simp only: bt.simps Let_def)
  from first_some_SomeD[OF this] obtain n where
    n: "n \<in> set [lo..<Suc top]" and k: "k (advance n cur) c = Some y"
    by (cases g) (auto simp only: set_rev if_True if_False)
  from n have "lo \<le> n" "case hi of None \<Rightarrow> True | Some h \<Rightarrow> n \<le> h" "n \<le> run"
    by (auto simp: top_def split: option.splits)
  then have "accepts (Rep g lo hi cl) cur c (advance n cur) c"
    unfolding accepts.simps run_def by blast
  with k show ?case by blast
next
  case (Grp n r)
  from Grp.prems have
    "bt r cur c (\<lambda>cur' c'. k cur' (c'(n \<mapsto> consumed (snd cur) (snd cur')))) = Some y" by simp
  from Grp.IH[OF this] obtain cur' c'' where
    a: "accepts r cur c cur' c''"
    and k: "k cur' (c''(n \<mapsto> consumed (snd cur) (snd cur'))) = Some y" by blast
  from a have "accepts (Grp n r) cur c cur' (c''(n \<mapsto> consumed (snd cur) (snd cur')))"
    by (simp only: accepts.simps) blast
  with k show ?case by blast
qed (auto split: list.splits if_splits)

lemma bt_complete:
  "bt r cur c k = None \<Longrightarrow> accepts r cur c cur' c' \<Longrightarrow> k cur' c' = None"
proof (induction r arbitrary: cur c k cur' c')
  case (Seq a b)
  from Seq.prems(2) obtain mid cm where
    a: "accepts a cur c mid cm" and b: "accepts b mid cm cur' c'" by auto
  from Seq.prems(1) have "bt a cur c (\<lambda>cur' c'. bt b cur' c' k) = None" by simp
  from Seq.IH(1)[OF this a] have "bt b mid cm k = None" .
  from Seq.IH(2)[OF this b] show ?case .
next
  case (Alt a b)
  from Alt.prems(1) have n: "bt a cur c k = None" "bt b cur c k = None"
    by (simp_all split: option.splits)
  from Alt.prems(2) have "accepts a cur c cur' c' \<or> accepts b cur c cur' c'" by simp
  then show ?case using Alt.IH(1)[OF n(1)] Alt.IH(2)[OF n(2)] by blast
next
  case (Rep g lo hi cl)
  define run where "run = length (takeWhile (cls_has cl) (snd cur))"
  define top where "top = (case hi of None \<Rightarrow> run | Some h \<Rightarrow> min h run)"
  from Rep.prems(1) have
    "first_some (\<lambda>n. k (advance n cur) c) (if g then rev [lo..<Suc top] else [lo..<Suc top]) = None"
    unfolding run_def top_def by (simp only: bt.simps Let_def)
  then have all: "\<forall>n \<in> set [lo..<Suc top]. k (advance n cur) c = None"
    by (cases g) (simp_all only: first_some_None set_rev if_True if_False)
  from Rep.prems(2) obtain n where
    n: "lo \<le> n" "case hi of None \<Rightarrow> True | Some h \<Rightarrow> n \<le> h" "n \<le> run"
    and e: "cur' = advance n cur" "c' = c"
    by (auto simp: run_def)
  from n have "n \<in> set [lo..<Suc top]" by (auto simp: top_def split: option.splits)
  with all have "k (advance n cur) c = None" by blast
  with e show ?case by simp
next
  case (Grp n r)
  from Grp.prems(2) obtain c'' where
    a: "accepts r cur c cur' c''" and e: "c' = c''(n \<mapsto> consumed (snd cur) (snd cur'))" by auto
  from Grp.prems(1) have
    "bt r cur c (\<lambda>cur' c'. k cur' (c'(n \<mapsto> consumed (snd cur) (snd cur')))) = None" by simp
  from Grp.IH[OF this a] e show ?case by simp
qed (auto split: list.splits if_splits)


lemma consumed_advance:
  "n \<le> length s \<Longrightarrow> consumed s (snd (advance n (p, s))) = take n s"
  by (simp add: consumed_def advance_def)

lemma snd_advance [simp]: "snd (advance n cur) = drop n (snd cur)"
  by (simp add: advance_def)

lemma takeWhile_take_all:
  "n \<le> length (takeWhile P s) \<Longrightarrow> list_all P (take n s)"
proof -
  assume n: "n \<le> length (takeWhile P s)"
  have "take n (takeWhile P s @ dropWhile P s) = take n (takeWhile P s)"
    using n by (simp del: takeWhile_dropWhile_id)
  then have "take n s = take n (takeWhile P s)" by simp
  then have "set (take n s) \<subseteq> set (takeWhile P s)" by (simp add: set_take_subset)
  then show ?thesis by (auto simp: list_all_iff dest: set_takeWhileD)
qed

lemma accepts_digit_group:
  assumes "accepts (Grp n (Rep g lo hi (In [Dig]))) cur c cur' c'" and "0 < lo"
  shows "\<exists>t. c' = c(n \<mapsto> t) \<and> digits_text t"
proof -
  from assms(1) obtain k where k: "lo \<le> k" "k \<le> length (takeWhile (cls_has (In [Dig])) (snd cur))"
    and cur': "cur' = advance k cur" and c': "c' = c(n \<mapsto> consumed (snd cur) (snd cur'))"
    by auto
  have len: "k \<le> length (snd cur)"
    using k(2) length_takeWhile_le[of "cls_has (In [Dig])" "snd cur"] by linarith
  have "consumed (snd cur) (snd cur') = take k (snd cur)"
    using len by (simp add: cur' consumed_def)
  moreover have "list_all (cls_has (In [Dig])) (take k (snd cur))"
    by (rule takeWhile_take_all[OF k(2)])
  then have "list_all is_digit (take k (snd cur))" by (simp add: list_all_iff)
  moreover have "take k (snd cur) \<noteq> []" using k(1) len assms(2) by auto
  ultimately show ?thesis using c' by (auto simp: digits_text_def)
qed

lemma py_int_digits: "digits_text t \<Longrightarrow> \<exists>v. py_int t = Inr v \<and> 0 \<le> v"
  by (simp add: py_int_def digits_text_def)


lemma advance_0 [simp]: "advance 0 cur = cur"
  by (simp add: advance_def)

lemma advance_Suc_Cons [simp]: "advance (Suc k) (p, x # xs) = advance k (Some x, xs)"
  by (simp add: advance_def)

lemma match_here_sound:
  assumes "match_here r cur = Some m"
  shows "accepts r cur Map.empty (m_end m) (m_groups m)
         \<and> m_whole m = consumed (snd cur) (snd (m_end m))"
proof -
  from assms obtain cur' c' where a: "accepts r cur Map.empty cur' c'"
    and m: "Some \<lparr>m_whole = consumed (snd cur) (snd cur'), m_groups = c', m_end = cur'\<rparr> = Some m"
    unfolding match_here_def by (blast dest: bt_sound)
  from m have "m = \<lparr>m_whole = consumed (snd cur) (snd cur'), m_groups = c', m_end = cur'\<rparr>"
    by simp
  with a show ?thesis by simp
qed

lemma match_here_None:
  "match_here r cur = None \<Longrightarrow> \<not> accepts r cur Map.empty cur' c'"
  unfolding match_here_def by (auto dest: bt_complete)

lemma search_from_Some:
  "search_from r p s = Some m \<Longrightarrow>
     \<exists>k\<le>length s. match_here r (advance k (p, s)) = Some m
        \<and> (\<forall>j<k. match_here r (advance j (p, s)) = None)"
proof (induction s arbitrary: p)
  case Nil
  then show ?case by simp
next
  case (Cons x xs)
  show ?case
  proof (cases "match_here r (p, x # xs)")
    case (Some m')
    with Cons.prems have "match_here r (advance 0 (p, x # xs)) = Some m" by simp
    then show ?thesis by blast
  next
    case None
    with Cons.prems have "search_from r (Some x) xs = Some m" by simp
    from Cons.IH[OF this] obtain k where k: "k \<le> length xs"
      "match_here r (advance k (Some x, xs)) = Some m"
      "\<forall>j<k. match_here r (advance j (Some x, xs)) = None" by blast
    have "\<forall>j<Suc k. match_here r (advance j (p, x # xs)) = None"
    proof (intro allI impI)
      fix j assume "j < Suc k"
      then show "match_here r (advance j (p, x # xs)) = None"
        using None k(3) by (cases j) auto
    qed
    with k(1,2) show ?thesis
      by (intro exI[of _ "Suc k"]) simp
  qed
qed

lemma search_from_None:
  "search_from r p s = None \<Longrightarrow> k \<le> length s \<Longrightarrow> match_here r (advance k (p, s)) = None"
proof (induction s arbitrary: p k)
  case Nil
  then show ?case by simp
next
  case (Cons x xs)
  from Cons.prems(1) have h: "match_here r (p, x # xs) = None" "search_from r (Some x) xs = None"
    by (simp_all split: option.splits)
  show ?case
  proof (cases k)
    case 0
    with h show ?thesis by simp
  next
    case (Suc k')
    with Cons.prems(2) have "k' \<le> length xs" by simp
    from Cons.IH[OF h(2) this] Suc show ?thesis by simp
  qed
qed

lemma re_search_sound:
  assumes "re_search r s = Some m"
  shows "\<exists>cur. accepts r cur Map.empty (m_end m) (m_groups m)"
proof -
  from assms obtain k where "match_here r (advance k (None, s)) = Some m"
    unfolding re_search_def by (blast dest: search_from_Some)
  from match_here_sound[OF this] show ?thesis by blast
qed


lemma cat_simps: "cat [] = Eps" "cat (r # rs) = Seq r (cat rs)"
  by (simp_all add: cat_def)

lemma time_colon_groups:
  assumes "accepts time_colon_re cur c cur' c'"
  shows "\<exists>t1 t2. c' = c(1 \<mapsto> t1, 2 \<mapsto> t2) \<and> digits_text t1 \<and> digits_text t2"
proof -
  from assms obtain s1 s2 c2 s3 s4 where
    g1: "accepts (Grp 1 (Rep True 1 (Some 2) (In [Dig]))) s1 c s2 c2" and
    g2: "accepts (Grp 2 (Rep True 2 (Some 2) (In [Dig]))) s3 c2 s4 c'"
    unfolding time_colon_re_def cat_simps accepts.simps(1,3,4,7) by blast
  from accepts_digit_group[OF g1] accepts_digit_group[OF g2] show ?thesis by auto
qed

lemma time_marked_groups:
  assumes "accepts (time_marked_re m1 m2) cur c cur' c'"
  shows "\<exists>t1 t2. (t1 = m1 \<or> t1 = m2) \<and> digits_text t2
           \<and> (c' = c(1 \<mapsto> t1, 2 \<mapsto> t2) \<or> (\<exists>t3. c' = c(1 \<mapsto> t1, 2 \<mapsto> t2, 3 \<mapsto> t3) \<and> digits_text t3))"
proof -
  from assms obtain s1 c1 s2 s3 c3 s4 where
    g1: "accepts (Grp 1 (Alt (Str m1) (Str m2))) cur c s1 c1" and
    g2: "accepts (Grp 2 (Rep True 1 (Some 2) (In [Dig]))) s2 c1 s3 c3" and
    opt: "accepts (Alt (cat [Rep True 0 None (In [Spc]), Grp 3 (Rep True 1 (Some 2) (In [Dig])), Str bun]) Eps) s4 c3 cur' c'"
    unfolding time_marked_re_def cat_simps accepts.simps(1,3,4,6,7) by blast
  from g1 have "\<exists>t1. c1 = c(1 \<mapsto> t1) \<and> (t1 = m1 \<or> t1 = m2)"
    by (auto simp: consumed_def advance_def prefix_def)
  moreover from accepts_digit_group[OF g2] obtain t2 where "c3 = c1(2 \<mapsto> t2)" "digits_text t2"
    by auto
  moreover from opt have "c' = c3 \<or> (\<exists>t3. c' = c3(3 \<mapsto> t3) \<and> digits_text t3)"
  proof -
    from opt consider
      (a) "accepts (cat [Rep True 0 None (In [Spc]), Grp 3 (Rep True 1 (Some 2) (In [Dig])), Str bun]) s4 c3 cur' c'"
      | (b) "c' = c3" by auto
    then show ?thesis
    proof cases
      case a
      then obtain u1 u2 where "accepts (Grp 3 (Rep True 1 (Some 2) (In [Dig]))) u1 c3 u2 c'"
        unfolding cat_simps accepts.simps(1,3,4,6,7) by blast
      from accepts_digit_group[OF this] show ?thesis by auto
    qed simp
  qed
  ultimately show ?thesis by auto
qed


lemma accepts_dom:
  "accepts r cur c cur' c' \<Longrightarrow> dom c \<union> sure_groups r \<subseteq> dom c'"
proof (induction r arbitrary: cur c cur' c')
  case (Seq a b)
  from Seq.prems obtain mid cm where
    a: "accepts a cur c mid cm" and b: "accepts b mid cm cur' c'" by auto
  from Seq.IH(1)[OF a] Seq.IH(2)[OF b] show ?case
    unfolding sure_groups.simps by blast
next
  case (Alt a b)
  from Alt.prems have "accepts a cur c cur' c' \<or> accepts b cur c cur' c'" by simp
  then show ?case using Alt.IH(1)[of cur c cur' c'] Alt.IH(2)[of cur c cur' c']
    unfolding sure_groups.simps by blast
next
  case (Grp n r)
  from Grp.prems obtain c'' where
    a: "accepts r cur c cur' c''" and e: "c' = c''(n \<mapsto> consumed (snd cur) (snd cur'))" by auto
  from Grp.IH[OF a] e show ?case by auto
qed auto

lemma re_search_group:
  assumes "re_search r s = Some m" and "n \<in> sure_groups r"
  shows "\<exists>t. group m n = Some t"
proof -
  from re_search_sound[OF assms(1)] obtain cur where
    "accepts r cur Map.empty (m_end m) (m_groups m)" by blast
  from accepts_dom[OF this] assms(2) show ?thesis by (auto simp: group_def)
qed

lemma hhmm_colon_total: "\<exists>v. hhmm_colon g = Inr v"
proof (cases "re_search time_colon_re g")
  case None
  then show ?thesis by (simp add: hhmm_colon_def)
next
  case (Some m)
  from re_search_sound[OF Some] obtain cur where
    "accepts time_colon_re cur Map.empty (m_end m) (m_groups m)" by blast
  from time_colon_groups[OF this] obtain t1 t2 where
    g: "m_groups m = [1 \<mapsto> t1, 2 \<mapsto> t2]" and d: "digits_text t1" "digits_text t2" by blast
  from py_int_digits[OF d(1)] py_int_digits[OF d(2)] obtain v1 v2 where
    "py_int t1 = Inr v1" "py_int t2 = Inr v2" by blast
  with g Some show ?thesis
    by (simp add: hhmm_colon_def int_group_def group_def ebind_def)
qed

lemma marked_ints:
  assumes "re_search (time_marked_re m1 m2) g = Some m"
  shows "\<exists>hh mm. int_group m 2 = Inr hh \<and> int_group_or_0 m 3 = Inr mm"
proof -
  from re_search_sound[OF assms] obtain cur where
    "accepts (time_marked_re m1 m2) cur Map.empty (m_end m) (m_groups m)" by blast
  from time_marked_groups[OF this] obtain t1 t2 where
    d2: "digits_text t2" and
    g: "m_groups m = [1 \<mapsto> t1, 2 \<mapsto> t2]
        \<or> (\<exists>t3. m_groups m = [1 \<mapsto> t1, 2 \<mapsto> t2, 3 \<mapsto> t3] \<and> digits_text t3)"
    by blast
  from py_int_digits[OF d2] obtain v2 where v2: "py_int t2 = Inr v2" by blast
  from g show ?thesis
  proof
    assume "m_groups m = [1 \<mapsto> t1, 2 \<mapsto> t2]"
    with v2 show ?thesis by (simp add: int_group_def int_group_or_0_def group_def)
  next
    assume "\<exists>t3. m_groups m = [1 \<mapsto> t1, 2 \<mapsto> t2, 3 \<mapsto> t3] \<and> digits_text t3"
    then obtain t3 where g3: "m_groups m = [1 \<mapsto> t1, 2 \<mapsto> t2, 3 \<mapsto> t3]"
      and d3: "digits_text t3" by blast
    from py_int_digits[OF d3] obtain v3 where "py_int t3 = Inr v3" by blast
    with v2 g3 d3 show ?thesis
      by (simp add: int_group_def int_group_or_0_def group_def digits_text_def)
  qed
qed

lemma hhmm_ampm_total: "\<exists>v. hhmm_ampm g = Inr v"
proof (cases "re_search (time_marked_re ojeon ohu) g")
  case None
  then show ?thesis by (simp add: hhmm_ampm_def)
next
  case (Some m)
  from marked_ints[OF Some] obtain hh mm where
    "int_group m 2 = Inr hh" "int_group_or_0 m 3 = Inr mm" by blast
  with Some show ?thesis by (simp add: hhmm_ampm_def ebind_def Let_def)
qed

lemma hhmm_evening_total: "\<exists>v. hhmm_evening g = Inr v"
proof (cases "re_search (time_marked_re jeonyeok bam) g")
  case None
  then show ?thesis by (simp add: hhmm_evening_def)
next
  case (Some m)
  from marked_ints[OF Some] obtain hh mm where
    "int_group m 2 = Inr hh" "int_group_or_0 m 3 = Inr mm" by blast
  with Some show ?thesis by (simp add: hhmm_evening_def ebind_def Let_def)
qed

lemma infer_hhmm_total: "\<exists>v. infer_hhmm goal = Inr v"
proof -
  obtain c1 c2 c3 where
    "hhmm_colon (strip goal) = Inr c1" "hhmm_ampm (strip goal) = Inr c2"
    "hhmm_evening (strip goal) = Inr c3"
    using hhmm_colon_total hhmm_ampm_total hhmm_evening_total by blast
  then show ?thesis
    by (simp add: infer_hhmm_def ebind_def Let_def split: option.splits)
qed

lemma strip_group_total:
  assumes "re_search r s = Some m" and "n \<in> sure_groups r"
  shows "strip_group m n = Inr (strip (the (group m n)))"
  using re_search_group[OF assms] by (auto simp: strip_group_def)

lemma infer_route_total: "\<exists>v. infer_route goal = Inr v"
proof (cases "re_findall route_re (strip goal) \<noteq> []")
  case True
  then show ?thesis by (simp add: infer_route_def Let_def split: prod.splits)
next
  case False
  show ?thesis
  proof (cases "re_search arrow_re (strip goal)")
    case None
    with False show ?thesis by (simp add: infer_route_def)
  next
    case (Some m)
    have "1 \<in> sure_groups arrow_re" "2 \<in> sure_groups arrow_re"
      by (simp_all add: arrow_re_def cat_simps)
    from strip_group_total[OF Some this(1)] strip_group_total[OF Some this(2)] False Some
    show ?thesis by (simp add: infer_route_def ebind_def)
  qed
qed

lemma infer_title_total: "\<exists>v. infer_title goal = Inr v"
proof (cases "re_search title_marker_re goal")
  case (Some m)
  have "1 \<in> sure_groups title_marker_re" by (simp add: title_marker_re_def cat_simps)
  from strip_group_total[OF Some this] Some show ?thesis
    by (simp add: infer_title_def ebind_def)
next
  case None
  show ?thesis
  proof (cases "re_search title_quoted_re goal")
    case (Some m)
    have "1 \<in> sure_groups title_quoted_re" by (simp add: title_quoted_re_def cat_simps)
    from strip_group_total[OF Some this] Some None show ?thesis
      by (simp add: infer_title_def ebind_def)
  next
    case None': None
    with None show ?thesis by (simp add: infer_title_def)
  qed
qed

section \<open>The plan compiler\<close>

lemma confirmations_eq:
  "confirmations ss acc =
     acc @ map (\<lambda>s. tool_name s @ msg_requires_confirmation)
               (filter (\<lambda>s. is_write_like (tool_name s)) ss)"
  by (induction ss arbitrary: acc) simp_all

lemma dec_digits_small: "n < 10 \<Longrightarrow> dec_digits n = [48 + n]"
  by (simp add: dec_digits.simps)

lemma numbered_Nil [simp]: "numbered []"
  by (simp add: numbered_def)

lemma numbered_single:
  "numbered [\<lparr>step_id = asc ''step-'' @ dec_digits (Suc 0), tool_name = n, args = a\<rparr>]"
  by (simp add: numbered_def dec_digits_small)

lemma numbered_pair:
  "numbered [\<lparr>step_id = asc ''step-1'', tool_name = n1, args = a1\<rparr>,
             \<lparr>step_id = asc ''step-'' @ dec_digits (Suc (Suc 0)), tool_name = n2, args = a2\<rparr>]"
  by (auto simp: numbered_def nth_Cons less_Suc_eq dec_digits_small asc_def)

lemma numbered_three:
  "numbered [\<lparr>step_id = asc ''step-1'', tool_name = n1, args = a1\<rparr>,
             \<lparr>step_id = asc ''step-2'', tool_name = n2, args = a2\<rparr>,
             \<lparr>step_id = asc ''step-3'', tool_name = n3, args = a3\<rparr>]"
  by (auto simp: numbered_def nth_Cons less_Suc_eq dec_digits_small asc_def split: nat.splits)

lemma numbered_one:
  "numbered [\<lparr>step_id = asc ''step-1'', tool_name = n1, args = a1\<rparr>]"
  by (auto simp: numbered_def dec_digits_small asc_def)

lemma plan_route_shape:
  "\<exists>st extra. plan_route goal ok a1 = Inr (st, a1 @ extra) \<and> numbered st"
proof -
  obtain frm to where r: "infer_route goal = Inr (frm, to)"
    using infer_route_total[of goal] by (cases "infer_route goal") auto
  obtain hhmm where h: "infer_hhmm goal = Inr hhmm"
    using infer_hhmm_total[of goal] by blast
  show ?thesis
  proof (cases "\<not> truthy frm \<or> \<not> truthy to")
    case True
    with r h show ?thesis by (simp add: plan_route_def ebind_def)
  next
    case False
    show ?thesis
    proof (cases "ok (asc ''map.route'')")
      case True
      with False r h show ?thesis
        by (auto simp: plan_route_def ebind_def Let_def numbered_one numbered_single numbered_pair)
    next
      case nomap: False
      with False r h show ?thesis
        by (auto simp: plan_route_def ebind_def Let_def numbered_one)
    qed
  qed
qed

lemma plan_schedule_create_shape:
  "\<exists>st extra. plan_schedule_create goal ok a1 = Inr (st, a1 @ extra) \<and> numbered st"
proof -
  obtain title where t: "infer_title goal = Inr title"
    using infer_title_total[of goal] by blast
  obtain hhmm where h: "infer_hhmm goal = Inr hhmm"
    using infer_hhmm_total[of goal] by blast
  show ?thesis
  proof (cases "truthy title \<and> truthy hhmm")
    case False
    with t h show ?thesis by (auto simp: plan_schedule_create_def ebind_def Let_def)
  next
    case True
    show ?thesis
    proof (cases "ok (asc ''calendar.create'')")
      case create: True
      with True t h show ?thesis
        by (auto simp: plan_schedule_create_def ebind_def Let_def numbered_one numbered_single numbered_pair)
    next
      case False
      with True t h show ?thesis
        by (auto simp: plan_schedule_create_def ebind_def Let_def numbered_one)
    qed
  qed
qed

lemma plan_paper_shape:
  "\<exists>st extra. plan_paper goal ok a1 = (st, a1 @ extra) \<and> numbered st"
  by (auto simp: plan_paper_def Let_def numbered_three)

lemma plan_news_shape:
  "\<exists>st extra. plan_news goal ok a1 = (st, a1 @ extra) \<and> numbered st"
  by (auto simp: plan_news_def Let_def numbered_three)

lemma plan_body_shape:
  "\<exists>st extra. plan_body it goal ok a1 = Inr (st, a1 @ extra) \<and> numbered st"
  unfolding plan_body_def
  using plan_route_shape[of goal ok a1] plan_schedule_create_shape[of goal ok a1]
        plan_paper_shape[of goal ok a1] plan_news_shape[of goal ok a1]
  by auto


lemma create_plan_alt:
  "create_plan u goal av strict =
     ebind (plan_body (classify_intent goal) goal (allow strict (avail_of av))
              (start_assumptions av))
       (\<lambda>(steps1, assumptions2).
          Inr \<lparr>plan_id = asc ''plan-'' @ take 8 u, intent = goal, steps = steps1,
               assumptions = assumptions2,
               required_confirmations = confirmations steps1 [],
               execution_hint = execution_hint_text\<rparr>)"
  by (simp add: create_plan_def Let_def avail_of_def start_assumptions_def)

lemma create_plan_shape:
  "\<exists>st extra.
     plan_body (classify_intent goal) goal (allow strict (avail_of av)) (start_assumptions av)
       = Inr (st, start_assumptions av @ extra)
     \<and> numbered st
     \<and> create_plan u goal av strict =
         Inr \<lparr>plan_id = asc ''plan-'' @ take 8 u, intent = goal, steps = st,
              assumptions = start_assumptions av @ extra,
              required_confirmations = confirmations st [],
              execution_hint = execution_hint_text\<rparr>"
proof -
  obtain st extra where
    b: "plan_body (classify_intent goal) goal (allow strict (avail_of av)) (start_assumptions av)
          = Inr (st, start_assumptions av @ extra)" and n: "numbered st"
    using plan_body_shape by blast
  have "create_plan u goal av strict =
         Inr \<lparr>plan_id = asc ''plan-'' @ take 8 u, intent = goal, steps = st,
              assumptions = start_assumptions av @ extra,
              required_confirmations = confirmations st [],
              execution_hint = execution_hint_text\<rparr>"
    by (simp add: create_plan_alt b ebind_def)
  with b n show ?thesis by blast
qed

lemma allow_empty [simp]: "allow strict [] = (\<lambda>name. True)"
  by (rule ext) (simp add: allow_def)

section \<open>The claims about the plan compiler\<close>

text \<open>
  Claim C10.  For every goal and every tool-availability input \<^verbatim>\<open>create_plan\<close> returns a
  plan whose list of assumptions is not empty and starts with the fixed notice of the
  confirmation policy; the other notes come after it.
\<close>

theorem assumptions_start_with_policy:
  "\<exists>p rest. create_plan u goal av strict = Inr p
      \<and> assumptions p = msg_confirm_policy # rest \<and> assumptions p \<noteq> []
      \<and> hd (assumptions p) = msg_confirm_policy"
  using create_plan_shape[of goal strict av u] by (auto simp: start_assumptions_def)

theorem assumptions_start_with_policy_witness:
  "\<exists>p rest. create_plan uuid0 goal_cancel None True = Inr p
      \<and> assumptions p = msg_confirm_policy # rest \<and> assumptions p \<noteq> []
      \<and> hd (assumptions p) = msg_confirm_policy"
  by (rule assumptions_start_with_policy)

text \<open>
  Claim C9.  \<^verbatim>\<open>create_plan\<close> is deterministic up to the plan identifier: two calls with the
  same goal, available tools and strictness, whatever identifiers they draw, return plans
  with the same intent, steps, assumptions, required confirmations and execution hint; the
  second plan is the first with its own identifier.
\<close>

theorem create_plan_deterministic:
  "\<exists>p1 p2. create_plan u1 goal av strict = Inr p1 \<and> create_plan u2 goal av strict = Inr p2
      \<and> intent p1 = intent p2 \<and> steps p1 = steps p2 \<and> assumptions p1 = assumptions p2
      \<and> required_confirmations p1 = required_confirmations p2
      \<and> execution_hint p1 = execution_hint p2
      \<and> p2 = p1\<lparr>plan_id := asc ''plan-'' @ take 8 u2\<rparr>"
proof -
  obtain st extra where
    b: "plan_body (classify_intent goal) goal (allow strict (avail_of av)) (start_assumptions av)
          = Inr (st, start_assumptions av @ extra)"
    using plan_body_shape by blast
  show ?thesis by (simp add: create_plan_alt b ebind_def)
qed

theorem create_plan_deterministic_witness:
  "\<exists>p1 p2. create_plan uuid0 goal_route None True = Inr p1
      \<and> create_plan (rev uuid0) goal_route None True = Inr p2
      \<and> intent p1 = intent p2 \<and> steps p1 = steps p2 \<and> assumptions p1 = assumptions p2
      \<and> required_confirmations p1 = required_confirmations p2
      \<and> execution_hint p1 = execution_hint p2
      \<and> p2 = p1\<lparr>plan_id := asc ''plan-'' @ take 8 (rev uuid0)\<rparr>"
  by (rule create_plan_deterministic)

text \<open>
  Claim C2.  In the plan returned by \<^verbatim>\<open>create_plan\<close> the required confirmations are, in
  order, one entry for each step whose tool name ends in \<^verbatim>\<open>.create\<close>, \<^verbatim>\<open>.write\<close>,
  \<^verbatim>\<open>.update\<close>, \<^verbatim>\<open>.delete\<close> or \<^verbatim>\<open>.send\<close>, and nothing for the other steps; so there are
  as many confirmations as write-like steps.
\<close>

theorem confirmations_match_write_like_steps:
  "\<exists>p. create_plan u goal av strict = Inr p
      \<and> required_confirmations p =
          map (\<lambda>s. tool_name s @ msg_requires_confirmation)
              (filter (\<lambda>s. is_write_like (tool_name s)) (steps p))
      \<and> length (required_confirmations p) =
          length (filter (\<lambda>s. is_write_like (tool_name s)) (steps p))
      \<and> (\<forall>name. is_write_like name =
            (suffix (asc ''.create'') name \<or> suffix (asc ''.write'') name
             \<or> suffix (asc ''.update'') name \<or> suffix (asc ''.delete'') name
             \<or> suffix (asc ''.send'') name))"
  using create_plan_shape[of goal strict av u]
  by (auto simp: confirmations_eq is_write_like_def endswith_def)

text \<open>
  Claim C8.  The steps of the plan returned by \<^verbatim>\<open>create_plan\<close> are numbered without a
  gap: the identifier of the \<open>i\<close>-th step, counting from one, is \<^verbatim>\<open>step-i\<close>, also when a
  leading step is left out by the tool filter.
\<close>

theorem step_ids_contiguous:
  "\<exists>p. create_plan u goal av strict = Inr p
      \<and> (\<forall>i<length (steps p). step_id (steps p ! i) = asc ''step-'' @ dec_digits (i + 1))"
  using create_plan_shape[of goal strict av u] by (auto simp: numbered_def)

text \<open>
  Claim C1.  With no available tools (the list omitted or empty) strict mode changes
  nothing: the strict and the non-strict call return plans with the same steps,
  assumptions, required confirmations, intent and execution hint, and the tool filter
  admits every tool in both.
\<close>

theorem strict_with_no_tools_is_permissive:
  "\<forall>a \<in> {None, Some []}. \<forall>b \<in> {None, Some []}.
     \<exists>p q. create_plan u1 goal a True = Inr p \<and> create_plan u2 goal b False = Inr q
       \<and> steps p = steps q \<and> assumptions p = assumptions q
       \<and> required_confirmations p = required_confirmations q
       \<and> intent p = intent q \<and> execution_hint p = execution_hint q
       \<and> (\<forall>name. allow True (avail_of a) name \<and> allow False (avail_of b) name)"
proof (intro ballI)
  fix a b :: "ustr list option"
  assume a: "a \<in> {None, Some []}" and b: "b \<in> {None, Some []}"
  then have e: "avail_of a = []" "avail_of b = []" by (auto simp: avail_of_def)
  have ok: "allow True (avail_of a) = allow False (avail_of b)"
    by (simp add: e)
  have sa: "start_assumptions a = start_assumptions b"
    by (simp add: start_assumptions_def e)
  from create_plan_shape[of goal True a u1] create_plan_shape[of goal False b u2]
  show "\<exists>p q. create_plan u1 goal a True = Inr p \<and> create_plan u2 goal b False = Inr q
       \<and> steps p = steps q \<and> assumptions p = assumptions q
       \<and> required_confirmations p = required_confirmations q
       \<and> intent p = intent q \<and> execution_hint p = execution_hint q
       \<and> (\<forall>name. allow True (avail_of a) name \<and> allow False (avail_of b) name)"
    unfolding ok sa by (auto simp: e)
qed

end
